theory Spec2Isabelle
  imports Complex_Main
begin

section \<open>JavaScript numbers, as far as chapter navigation uses them\<close>

text \<open>
  \<^verbatim>\<open>getCurrentChapterIndex\<close> returns \<^verbatim>\<open>Number(params.get("chapterId"))\<close>, so the
  current chapter index is a JavaScript number: it can be \<^verbatim>\<open>NaN\<close>, infinite, negative
  or fractional. Finite values are kept as exact rationals. The rounding of a literal
  or of a sum to the nearest binary64 value is not part of the model, and neither is the
  sign of zero; the model is exact for every integer of magnitude at most \<open>2^53\<close>,
  which covers every array index and every array length.
\<close>

datatype jsnum = NaN | PosInf | NegInf | Fin rat

fun js_add :: "jsnum \<Rightarrow> jsnum \<Rightarrow> jsnum" where
  "js_add NaN _ = NaN"
| "js_add _ NaN = NaN"
| "js_add PosInf NegInf = NaN"
| "js_add NegInf PosInf = NaN"
| "js_add PosInf _ = PosInf"
| "js_add _ PosInf = PosInf"
| "js_add NegInf _ = NegInf"
| "js_add _ NegInf = NegInf"
| "js_add (Fin a) (Fin b) = Fin (a + b)"

fun js_neg :: "jsnum \<Rightarrow> jsnum" where
  "js_neg NaN = NaN"
| "js_neg PosInf = NegInf"
| "js_neg NegInf = PosInf"
| "js_neg (Fin a) = Fin (- a)"

definition js_sub :: "jsnum \<Rightarrow> jsnum \<Rightarrow> jsnum" where
  "js_sub a b = js_add a (js_neg b)"

text \<open>The relational operators: every comparison with \<^verbatim>\<open>NaN\<close> is false.\<close>

fun js_lt :: "jsnum \<Rightarrow> jsnum \<Rightarrow> bool" where
  "js_lt NaN _ = False"
| "js_lt _ NaN = False"
| "js_lt _ NegInf = False"
| "js_lt PosInf _ = False"
| "js_lt NegInf _ = True"
| "js_lt _ PosInf = True"
| "js_lt (Fin a) (Fin b) = (a < b)"

fun js_ge :: "jsnum \<Rightarrow> jsnum \<Rightarrow> bool" where
  "js_ge NaN _ = False"
| "js_ge _ NaN = False"
| "js_ge a b = (\<not> js_lt a b)"

text \<open>Strict equality \<^verbatim>\<open>===\<close> on numbers: \<^verbatim>\<open>NaN\<close> is not equal to itself.\<close>

fun js_eq :: "jsnum \<Rightarrow> jsnum \<Rightarrow> bool" where
  "js_eq NaN _ = False"
| "js_eq _ NaN = False"
| "js_eq a b = (a = b)"

subsection \<open>\<^verbatim>\<open>Number(string)\<close>\<close>

text \<open>
  Strings are lists of 8-bit characters, read as the code units U+0000 to U+00FF. The
  white space that \<^verbatim>\<open>Number\<close> strips is, in that range, TAB, LF, VT, FF, CR, SP and
  NBSP.
\<close>

definition is_ws :: "char \<Rightarrow> bool" where
  "is_ws c = (c = CHR 0x09 \<or> c = CHR 0x0A \<or> c = CHR 0x0B \<or> c = CHR 0x0C \<or>
              c = CHR 0x0D \<or> c = CHR 0x20 \<or> c = CHR 0xA0)"

definition trim :: "string \<Rightarrow> string" where
  "trim s = rev (dropWhile is_ws (rev (dropWhile is_ws s)))"

text \<open>
  The position of the first element that satisfies the predicate: what
  \<^verbatim>\<open>Array.prototype.find\<close> and \<^verbatim>\<open>findIndex\<close> look for.
\<close>

fun first_match :: "('a \<Rightarrow> bool) \<Rightarrow> 'a list \<Rightarrow> nat option" where
  "first_match P [] = None"
| "first_match P (x # xs) = (if P x then Some 0 else map_option Suc (first_match P xs))"

text \<open>The value of a hexadecimal digit, in either case.\<close>

definition hex_val :: "char \<Rightarrow> nat option" where
  "hex_val c =
     (case first_match (\<lambda>d. d = c) ''0123456789abcdef'' of
        Some v \<Rightarrow> Some v
      | None \<Rightarrow> map_option (\<lambda>v. 10 + v) (first_match (\<lambda>d. d = c) ''ABCDEF''))"

definition is_digit :: "nat \<Rightarrow> char \<Rightarrow> bool" where
  "is_digit base c = (case hex_val c of None \<Rightarrow> False | Some d \<Rightarrow> d < base)"

definition digits_val :: "nat \<Rightarrow> string \<Rightarrow> nat" where
  "digits_val base cs = foldl (\<lambda>a c. base * a + (case hex_val c of None \<Rightarrow> 0 | Some d \<Rightarrow> d)) 0 cs"

text \<open>A non-empty run of digits of the given base, and nothing else.\<close>

definition all_digits :: "nat \<Rightarrow> string \<Rightarrow> bool" where
  "all_digits base cs = (cs \<noteq> [] \<and> list_all (is_digit base) cs)"

text \<open>
  The exponent part after the \<^verbatim>\<open>e\<close> or \<^verbatim>\<open>E\<close>: an optional sign and at least one
  decimal digit.
\<close>

definition exponent :: "string \<Rightarrow> int option" where
  "exponent cs =
    (case cs of
       [] \<Rightarrow> None
     | c # ds \<Rightarrow>
         if c = CHR ''+'' then (if all_digits 10 ds then Some (int (digits_val 10 ds)) else None)
         else if c = CHR ''-'' then (if all_digits 10 ds then Some (- int (digits_val 10 ds)) else None)
         else if all_digits 10 cs then Some (int (digits_val 10 cs)) else None)"

definition pow10 :: "int \<Rightarrow> rat" where
  "pow10 e = (if 0 \<le> e then 10 ^ nat e else 1 / 10 ^ nat (- e))"

text \<open>
  An unsigned decimal literal: \<^verbatim>\<open>Infinity\<close>, or digits with an optional fraction and
  an optional exponent, with a digit before or after the point.
\<close>

definition unsigned_decimal :: "string \<Rightarrow> jsnum" where
  "unsigned_decimal cs =
    (if cs = ''Infinity'' then PosInf
     else
       let ip = takeWhile (is_digit 10) cs;
           r1 = dropWhile (is_digit 10) cs;
           dot = (r1 \<noteq> [] \<and> hd r1 = CHR ''.'');
           fp = (if dot then takeWhile (is_digit 10) (tl r1) else []);
           r2 = (if dot then dropWhile (is_digit 10) (tl r1) else r1);
           mant = rat_of_nat (digits_val 10 ip) + rat_of_nat (digits_val 10 fp) / 10 ^ length fp
       in if ip = [] \<and> fp = [] then NaN
          else if r2 = [] then Fin mant
          else if hd r2 = CHR ''e'' \<or> hd r2 = CHR ''E'' then
            (case exponent (tl r2) of None \<Rightarrow> NaN | Some e \<Rightarrow> Fin (mant * pow10 e))
          else NaN)"

definition radix_literal :: "nat \<Rightarrow> string \<Rightarrow> jsnum" where
  "radix_literal base ds = (if all_digits base ds then Fin (rat_of_nat (digits_val base ds)) else NaN)"

definition stringToNumber :: "string \<Rightarrow> jsnum" where
  "stringToNumber s =
    (let t = trim s in
     case t of
       [] \<Rightarrow> Fin 0
     | c # cs \<Rightarrow>
         if c = CHR ''0'' \<and> cs \<noteq> [] \<and> (hd cs = CHR ''x'' \<or> hd cs = CHR ''X'') then radix_literal 16 (tl cs)
         else if c = CHR ''0'' \<and> cs \<noteq> [] \<and> (hd cs = CHR ''o'' \<or> hd cs = CHR ''O'') then radix_literal 8 (tl cs)
         else if c = CHR ''0'' \<and> cs \<noteq> [] \<and> (hd cs = CHR ''b'' \<or> hd cs = CHR ''B'') then radix_literal 2 (tl cs)
         else if c = CHR ''+'' then unsigned_decimal cs
         else if c = CHR ''-'' then js_neg (unsigned_decimal cs)
         else unsigned_decimal t)"

text \<open>\<^verbatim>\<open>Number(v)\<close> for \<^verbatim>\<open>v\<close> a string or \<^verbatim>\<open>null\<close>: \<^verbatim>\<open>Number(null)\<close> is \<open>0\<close>.\<close>

definition toNumber :: "string option \<Rightarrow> jsnum" where
  "toNumber v = (case v of None \<Rightarrow> Fin 0 | Some s \<Rightarrow> stringToNumber s)"

section \<open>The story and the navigation state\<close>

text \<open>
  A chapter as navigation sees it: the identity persisted in the URL and the title. The
  display and camera fields only travel from the story to the view, so the model records
  which record was rendered or flown to instead of repeating their contents.
\<close>

record story_chapter =
  chapter_id :: string
  title :: string

record story =
  chapters :: "story_chapter list"

datatype source = StoryProperties | ChapterAt nat

datatype icon = PLAY_ICON | PAUSE_ICON

datatype error = TypeError

text \<open>
  The mutable state that \<^verbatim>\<open>chapter-navigation.js\<close> reads and writes: the URL parameter
  \<^verbatim>\<open>chapterId\<close>, the module variable \<^verbatim>\<open>intervalId\<close>, the browser's table of live
  interval timers (handle and period) with its next free handle, and the parts of the
  page and of the globe that the module drives.
\<close>

record nav_state =
  chapterParam :: "string option"
  intervalId :: "nat option"
  timers :: "(nat \<times> nat) list"
  nextHandle :: nat
  autoplayIcon :: icon
  introActive :: bool
  detailsActive :: bool
  forwardDisabled :: bool
  indexDisplay :: "(jsnum \<times> nat) option"
  panel :: "(source \<times> bool) option"
  selectedMarker :: "nat option"
  radiusShader :: "(nat \<times> nat) option"
  flight :: "(source \<times> nat) option"

definition TIME_PER_CHAPTER :: nat where
  "TIME_PER_CHAPTER = 3000"

definition HIGHLIGHT_RADIUS :: nat where
  "HIGHLIGHT_RADIUS = 250"

subsection \<open>Collaborators\<close>

text \<open>
  Modelled from the spec: \<^verbatim>\<open>utils/params.js\<close> (\<^verbatim>\<open>getParams\<close>, \<^verbatim>\<open>setParams\<close>) is not
  among the sources. The spec describes it as a store that gets, sets or clears a single
  named string parameter; \<^verbatim>\<open>params.get\<close> of a cleared parameter is \<^verbatim>\<open>null\<close>.
\<close>

definition getParam :: "nav_state \<Rightarrow> string option" where
  "getParam s = chapterParam s"

definition setParams :: "string option \<Rightarrow> nav_state \<Rightarrow> nav_state" where
  "setParams v s = s\<lparr>chapterParam := v\<rparr>"

text \<open>
  Modelled from the spec: \<^verbatim>\<open>utils/create-markers.js\<close> and \<^verbatim>\<open>utils/cesium.js\<close> are not
  among the sources. Each command of the spec's marker and camera collaborators is
  recorded with its arguments: the selected marker, the highlighted chapter with the
  radius, and the last camera flight with its duration.
\<close>

definition setSelectedMarker :: "nat option \<Rightarrow> nav_state \<Rightarrow> nav_state" where
  "setSelectedMarker m s = s\<lparr>selectedMarker := m\<rparr>"

definition createCustomRadiusShader :: "nat \<Rightarrow> nat \<Rightarrow> nav_state \<Rightarrow> nav_state" where
  "createCustomRadiusShader k r s = s\<lparr>radiusShader := Some (k, r)\<rparr>"

definition removeCustomRadiusShader :: "nav_state \<Rightarrow> nav_state" where
  "removeCustomRadiusShader s = s\<lparr>radiusShader := None\<rparr>"

definition performFlyTo :: "source \<Rightarrow> nat \<Rightarrow> nav_state \<Rightarrow> nav_state" where
  "performFlyTo target duration s = s\<lparr>flight := Some (target, duration)\<rparr>"

text \<open>
  The browser's timers. \<^verbatim>\<open>setInterval\<close> registers a repeating timer under a fresh
  handle, which is greater than zero, and returns the handle. \<^verbatim>\<open>clearTimeout\<close> removes
  the timer with the given handle, interval timers included, and does nothing for
  \<^verbatim>\<open>null\<close>, which it reads as the handle \<open>0\<close> that no timer has.
\<close>

definition setInterval :: "nat \<Rightarrow> nav_state \<Rightarrow> nat \<times> nav_state" where
  "setInterval period s =
     (nextHandle s, s\<lparr>timers := timers s @ [(nextHandle s, period)], nextHandle := Suc (nextHandle s)\<rparr>)"

definition clearTimeout :: "nat option \<Rightarrow> nav_state \<Rightarrow> nav_state" where
  "clearTimeout h s =
     (case h of None \<Rightarrow> s | Some i \<Rightarrow> s\<lparr>timers := filter (\<lambda>t. fst t \<noteq> i) (timers s)\<rparr>)"

text \<open>The truth value of \<^verbatim>\<open>intervalId\<close> in \<^verbatim>\<open>if (intervalId)\<close>: \<^verbatim>\<open>null\<close> and \<open>0\<close> are false.\<close>

definition truthy :: "nat option \<Rightarrow> bool" where
  "truthy h = (case h of None \<Rightarrow> False | Some i \<Rightarrow> i \<noteq> 0)"

subsection \<open>Reading the current chapter\<close>

definition getCurrentChapterIndex :: "nav_state \<Rightarrow> jsnum" where
  "getCurrentChapterIndex s = toNumber (getParam s)"

text \<open>\<^verbatim>\<open>story.chapters.length\<close> as a number.\<close>

definition chapterCount :: "story \<Rightarrow> jsnum" where
  "chapterCount st = Fin (rat_of_nat (length (chapters st)))"

text \<open>
  \<^verbatim>\<open>story.chapters[v]\<close> for a number \<^verbatim>\<open>v\<close>: the position of the element when \<^verbatim>\<open>v\<close> is
  an integer from \<open>0\<close> up to the length, and \<^verbatim>\<open>undefined\<close> (\<open>None\<close>) for every other
  number.
\<close>

definition chapter_at :: "story \<Rightarrow> jsnum \<Rightarrow> nat option" where
  "chapter_at st v =
     (case v of
        Fin q \<Rightarrow>
          if rat_of_int \<lfloor>q\<rfloor> = q \<and> 0 \<le> q \<and> q < rat_of_nat (length (chapters st))
          then Some (nat \<lfloor>q\<rfloor>) else None
      | _ \<Rightarrow> None)"

subsection \<open>The view\<close>

definition activateNavigationElement :: "string \<Rightarrow> nav_state \<Rightarrow> nav_state" where
  "activateNavigationElement navName s =
     s\<lparr>introActive := (navName = ''intro''), detailsActive := (navName = ''details'')\<rparr>"

definition updateDetailsNavigation :: "story \<Rightarrow> nav_state \<Rightarrow> nav_state" where
  "updateDetailsNavigation st s =
     (let chapterIndex = js_add (getCurrentChapterIndex s) (Fin 1);
          s1 = s\<lparr>indexDisplay := Some (chapterIndex, length (chapters st))\<rparr>
      in if js_eq chapterIndex (chapterCount st)
         then s1\<lparr>forwardDisabled := True\<rparr>
         else s1\<lparr>forwardDisabled := False\<rparr>)"

definition updateChapterIndexAndNavigation :: "story \<Rightarrow> nav_state \<Rightarrow> nav_state" where
  "updateChapterIndexAndNavigation st s =
     (let chapterIndex = getCurrentChapterIndex s;
          s1 = s\<lparr>indexDisplay := Some (js_add chapterIndex (Fin 1), length (chapters st))\<rparr>
      in s1\<lparr>forwardDisabled := js_eq (js_add chapterIndex (Fin 1)) (chapterCount st)\<rparr>)"

text \<open>
  \<^verbatim>\<open>updateChapterContent(chapterData, isIntro)\<close>: the text and image fields it writes
  are functions of its two arguments and of the story, so the panel records the
  arguments.
\<close>

definition updateChapterContent :: "story \<Rightarrow> source \<Rightarrow> bool \<Rightarrow> nav_state \<Rightarrow> nav_state" where
  "updateChapterContent st chapterData isIntro s =
     (let s1 = updateDetailsNavigation st s;
          s2 = s1\<lparr>panel := Some (chapterData, isIntro)\<rparr>
      in updateChapterIndexAndNavigation st s2)"

subsection \<open>Navigation\<close>

definition resetToIntro :: "story \<Rightarrow> nav_state \<Rightarrow> nav_state" where
  "resetToIntro st s =
     (let s1 = setParams None s;
          s2 = setSelectedMarker None s1;
          s3 = updateChapterContent st StoryProperties True s2;
          s4 = activateNavigationElement ''intro'' s3;
          s5 = removeCustomRadiusShader s4
      in performFlyTo StoryProperties 1 s5)"

text \<open>
  \<^verbatim>\<open>updateChapter\<close> starts by destructuring \<^verbatim>\<open>story.chapters[chapterIndex]\<close>, which
  throws a \<^verbatim>\<open>TypeError\<close> when there is no such element, before anything is written.
\<close>

definition updateChapter :: "story \<Rightarrow> jsnum \<Rightarrow> nav_state \<Rightarrow> error + nav_state" where
  "updateChapter st chapterIndex s =
     (case chapter_at st chapterIndex of
        None \<Rightarrow> Inl TypeError
      | Some k \<Rightarrow>
          let s1 = setSelectedMarker (Some k) s;
              s2 = setParams (Some (chapter_id (chapters st ! k))) s1;
              s3 = updateChapterContent st (ChapterAt k) False s2;
              s4 = activateNavigationElement ''details'' s3;
              s5 = createCustomRadiusShader k HIGHLIGHT_RADIUS s4
          in Inr (performFlyTo (ChapterAt k) 2 s5))"

definition setPreviousChapter :: "story \<Rightarrow> nav_state \<Rightarrow> error + nav_state" where
  "setPreviousChapter st s =
     (let newChapterIndex = js_sub (getCurrentChapterIndex s) (Fin 1)
      in if js_ge newChapterIndex (Fin 0) then updateChapter st newChapterIndex s
         else Inr (resetToIntro st s))"

definition setNextChapter :: "story \<Rightarrow> nav_state \<Rightarrow> error + nav_state" where
  "setNextChapter st s =
     (let newChapterIndex = js_add (getCurrentChapterIndex s) (Fin 1)
      in if js_lt newChapterIndex (chapterCount st) then updateChapter st newChapterIndex s
         else Inr s)"

subsection \<open>Autoplay\<close>

definition stopAutoplay :: "nav_state \<Rightarrow> nav_state" where
  "stopAutoplay s =
     (let s1 = s\<lparr>autoplayIcon := PLAY_ICON\<rparr>;
          s2 = clearTimeout (intervalId s1) s1
      in s2\<lparr>intervalId := None\<rparr>)"

definition setNextAutoplayStep :: "story \<Rightarrow> nav_state \<Rightarrow> error + nav_state" where
  "setNextAutoplayStep st s =
     (case setNextChapter st s of
        Inl e \<Rightarrow> Inl e
      | Inr s1 \<Rightarrow>
          if js_eq (getCurrentChapterIndex s1) (js_sub (chapterCount st) (Fin 1))
          then Inr (stopAutoplay s1) else Inr s1)"

definition autoplayClickHandler :: "nav_state \<Rightarrow> nav_state" where
  "autoplayClickHandler s =
     (if truthy (intervalId s) then stopAutoplay s
      else let (h, s1) = setInterval TIME_PER_CHAPTER s
           in s1\<lparr>intervalId := Some h, autoplayIcon := PAUSE_ICON\<rparr>)"

subsection \<open>Initialisation and the event handlers\<close>

text \<open>
  \<^verbatim>\<open>initChapterNavigation\<close> looks the parameter up among the chapter ids with
  \<^verbatim>\<open>chapter.id === chapterParam\<close>, which no chapter satisfies when the parameter is
  \<^verbatim>\<open>null\<close>, shows the chapter it finds or else the introduction, and registers the click
  handlers below.
\<close>

definition initChapterNavigation :: "story \<Rightarrow> nav_state \<Rightarrow> nav_state" where
  "initChapterNavigation st s =
     (let chapterParam = getParam s;
          chapterData = first_match (\<lambda>c. Some (chapter_id c) = chapterParam) (chapters st)
      in case chapterData of
           Some k \<Rightarrow> updateChapterContent st (ChapterAt k) False (activateNavigationElement ''details'' s)
         | None \<Rightarrow> updateChapterContent st StoryProperties True (activateNavigationElement ''intro'' s))"

text \<open>
  A handler either runs to its end or is cut short by an exception that nobody catches;
  \<open>Uncaught\<close> carries the state as the handler left it.
\<close>

datatype outcome = Completed nav_state | Uncaught error nav_state

fun after :: "outcome \<Rightarrow> nav_state" where
  "after (Completed s) = s"
| "after (Uncaught e s) = s"

definition startClick :: "story \<Rightarrow> nav_state \<Rightarrow> outcome" where
  "startClick st s =
     (let s1 = activateNavigationElement ''details'' s
      in case updateChapter st (Fin 0) s1 of Inl e \<Rightarrow> Uncaught e s1 | Inr s2 \<Rightarrow> Completed s2)"

definition forwardClick :: "story \<Rightarrow> nav_state \<Rightarrow> outcome" where
  "forwardClick st s =
     (case setNextChapter st s of Inl e \<Rightarrow> Uncaught e s | Inr s1 \<Rightarrow> Completed (stopAutoplay s1))"

definition backClick :: "story \<Rightarrow> nav_state \<Rightarrow> outcome" where
  "backClick st s =
     (case setPreviousChapter st s of Inl e \<Rightarrow> Uncaught e s | Inr s1 \<Rightarrow> Completed (stopAutoplay s1))"

definition autoplayClick :: "story \<Rightarrow> nav_state \<Rightarrow> outcome" where
  "autoplayClick st s = Completed (autoplayClickHandler s)"

text \<open>One firing of an interval timer whose callback is \<^verbatim>\<open>setNextAutoplayStep\<close>.\<close>

definition timerTick :: "story \<Rightarrow> nav_state \<Rightarrow> outcome" where
  "timerTick st s =
     (case setNextAutoplayStep st s of Inl e \<Rightarrow> Uncaught e s | Inr s1 \<Rightarrow> Completed s1)"

text \<open>
  The states the page can be in: it is loaded with any \<^verbatim>\<open>chapterId\<close> parameter and no
  autoplay timer, and then clicks and timer firings follow one another; a timer fires
  only while it is live. The parameter lives in the URL, so it can also be rewritten from
  outside the module.
\<close>

inductive reachable :: "story \<Rightarrow> nav_state \<Rightarrow> bool" for st :: story where
  on_boot: "intervalId s0 = None \<Longrightarrow> timers s0 = [] \<Longrightarrow> 0 < nextHandle s0 \<Longrightarrow>
         reachable st (initChapterNavigation st s0)"
| on_start: "reachable st s \<Longrightarrow> reachable st (after (startClick st s))"
| on_forward: "reachable st s \<Longrightarrow> reachable st (after (forwardClick st s))"
| on_back: "reachable st s \<Longrightarrow> reachable st (after (backClick st s))"
| on_autoplay: "reachable st s \<Longrightarrow> reachable st (after (autoplayClick st s))"
| on_tick: "reachable st s \<Longrightarrow> timers s \<noteq> [] \<Longrightarrow> reachable st (after (timerTick st s))"
| on_url: "reachable st s \<Longrightarrow> reachable st (setParams p s)"

text \<open>
  The autoplay timer is in step with its handle: no handle and no live timer, or one live
  timer of period \<^verbatim>\<open>TIME_PER_CHAPTER\<close> whose handle \<^verbatim>\<open>intervalId\<close> holds.
\<close>

definition timer_inv :: "nav_state \<Rightarrow> bool" where
  "timer_inv s =
     (0 < nextHandle s \<and>
      (case intervalId s of
         None \<Rightarrow> timers s = []
       | Some h \<Rightarrow> 0 < h \<and> h < nextHandle s \<and> timers s = [(h, TIME_PER_CHAPTER)]))"

subsection \<open>The superseded title-keyed implementation\<close>

text \<open>
  The older copy of the module persists the chapter title in the parameter
  \<^verbatim>\<open>chapter\<close> and resolves it with
  \<^verbatim>\<open>story.chapters.findIndex((chapter) => chapter.title === chapterParam)\<close>, which is
  \<open>-1\<close> when nothing matches. The same state field stands for its parameter.
\<close>

definition findIndex :: "('a \<Rightarrow> bool) \<Rightarrow> 'a list \<Rightarrow> jsnum" where
  "findIndex P xs = (case first_match P xs of None \<Rightarrow> Fin (- 1) | Some k \<Rightarrow> Fin (rat_of_nat k))"

definition getCurrentChapterIndex_byTitle :: "story \<Rightarrow> nav_state \<Rightarrow> jsnum" where
  "getCurrentChapterIndex_byTitle st s =
     findIndex (\<lambda>c. Some (title c) = getParam s) (chapters st)"

subsection \<open>Sample stories and states\<close>

definition story3 :: story where
  "story3 = \<lparr>chapters = [\<lparr>chapter_id = ''0'', title = ''A''\<rparr>,
                         \<lparr>chapter_id = ''1'', title = ''B''\<rparr>,
                         \<lparr>chapter_id = ''2'', title = ''C''\<rparr>]\<rparr>"

text \<open>The same chapters after the first two have changed places.\<close>

definition story_swapped :: story where
  "story_swapped = \<lparr>chapters = [\<lparr>chapter_id = ''1'', title = ''B''\<rparr>,
                                \<lparr>chapter_id = ''0'', title = ''A''\<rparr>,
                                \<lparr>chapter_id = ''2'', title = ''C''\<rparr>]\<rparr>"

text \<open>A story of one chapter.\<close>

definition story1 :: story where
  "story1 = \<lparr>chapters = [\<lparr>chapter_id = ''0'', title = ''A''\<rparr>]\<rparr>"

text \<open>The page as loaded with the given \<^verbatim>\<open>chapterId\<close> parameter, before initialisation.\<close>

definition loaded :: "string option \<Rightarrow> nav_state" where
  "loaded p = \<lparr>chapterParam = p, intervalId = None, timers = [], nextHandle = 1,
               autoplayIcon = PLAY_ICON, introActive = False, detailsActive = False,
               forwardDisabled = False, indexDisplay = None, panel = None,
               selectedMarker = None, radiusShader = None, flight = None\<rparr>"

text \<open>
  \<^verbatim>\<open>story3\<close> opened at its first chapter, with autoplay started under handle \<open>1\<close> and
  the parameter then rewritten to the given value.
\<close>

definition playing :: "string option \<Rightarrow> nav_state" where
  "playing p = \<lparr>chapterParam = p, intervalId = Some 1, timers = [(1, 3000)], nextHandle = 2,
                autoplayIcon = PAUSE_ICON, introActive = False, detailsActive = True,
                forwardDisabled = False, indexDisplay = Some (Fin 1, 3),
                panel = Some (ChapterAt 0, False),
                selectedMarker = None, radiusShader = None, flight = None\<rparr>"

section \<open>Properties\<close>

subsection \<open>Numbers and chapter lookup\<close>

lemma js_add_Fin_1 [simp]: "js_add (Fin a) (Fin 1) = Fin (a + 1)" by simp
lemma js_sub_Fin_1 [simp]: "js_sub (Fin a) (Fin 1) = Fin (a - 1)" by (simp add: js_sub_def)



lemma chapter_at_nat: "chapter_at st (Fin (rat_of_nat k)) = (if k < length (chapters st) then Some k else None)"
  by (simp add: chapter_at_def)


subsection \<open>What each operation writes\<close>

lemma updateChapterContent_fields [simp]:
  "chapterParam (updateChapterContent st src b s) = chapterParam s"
  "intervalId (updateChapterContent st src b s) = intervalId s"
  "timers (updateChapterContent st src b s) = timers s"
  "nextHandle (updateChapterContent st src b s) = nextHandle s"
  "autoplayIcon (updateChapterContent st src b s) = autoplayIcon s"
  "selectedMarker (updateChapterContent st src b s) = selectedMarker s"
  "panel (updateChapterContent st src b s) = Some (src, b)"
  "introActive (updateChapterContent st src b s) = introActive s"
  "detailsActive (updateChapterContent st src b s) = detailsActive s"
  by (simp_all add: updateChapterContent_def updateDetailsNavigation_def
      updateChapterIndexAndNavigation_def Let_def)



lemma updateChapter_Some:
  assumes "chapter_at st v = Some k"
  shows "\<exists>s'. updateChapter st v s = Inr s' \<and>
           chapterParam s' = Some (chapter_id (chapters st ! k)) \<and>
           selectedMarker s' = Some k \<and> panel s' = Some (ChapterAt k, False) \<and>
           detailsActive s' \<and> \<not> introActive s' \<and>
           radiusShader s' = Some (k, HIGHLIGHT_RADIUS) \<and> flight s' = Some (ChapterAt k, 2) \<and>
           intervalId s' = intervalId s \<and> timers s' = timers s \<and>
           nextHandle s' = nextHandle s \<and> autoplayIcon s' = autoplayIcon s"
  using assms
  by (simp add: updateChapter_def Let_def performFlyTo_def createCustomRadiusShader_def
      activateNavigationElement_def setParams_def setSelectedMarker_def)

lemma updateChapter_None: "chapter_at st v = None \<Longrightarrow> updateChapter st v s = Inl TypeError"
  by (simp add: updateChapter_def)

lemma updateChapter_Inr:
  assumes "updateChapter st v s = Inr s'"
  shows "\<exists>k. chapter_at st v = Some k \<and>
           chapterParam s' = Some (chapter_id (chapters st ! k)) \<and>
           intervalId s' = intervalId s \<and> timers s' = timers s \<and>
           nextHandle s' = nextHandle s \<and> autoplayIcon s' = autoplayIcon s"
proof (cases "chapter_at st v")
  case None
  with assms show ?thesis by (simp add: updateChapter_None)
next
  case (Some k)
  from updateChapter_Some [OF Some, of s] assms Some show ?thesis by auto
qed

lemma resetToIntro_fields [simp]:
  "chapterParam (resetToIntro st s) = None"
  "selectedMarker (resetToIntro st s) = None"
  "introActive (resetToIntro st s)"
  "\<not> detailsActive (resetToIntro st s)"
  "radiusShader (resetToIntro st s) = None"
  "flight (resetToIntro st s) = Some (StoryProperties, 1)"
  "panel (resetToIntro st s) = Some (StoryProperties, True)"
  "intervalId (resetToIntro st s) = intervalId s"
  "timers (resetToIntro st s) = timers s"
  "nextHandle (resetToIntro st s) = nextHandle s"
  "autoplayIcon (resetToIntro st s) = autoplayIcon s"
  by (simp_all add: resetToIntro_def Let_def performFlyTo_def removeCustomRadiusShader_def
      activateNavigationElement_def setParams_def setSelectedMarker_def)

lemma stopAutoplay_fields [simp]:
  "intervalId (stopAutoplay s) = None"
  "autoplayIcon (stopAutoplay s) = PLAY_ICON"
  "timers (stopAutoplay s) = filter (\<lambda>t. Some (fst t) \<noteq> intervalId s) (timers s)"
  "nextHandle (stopAutoplay s) = nextHandle s"
  "chapterParam (stopAutoplay s) = chapterParam s"
  by (simp_all add: stopAutoplay_def clearTimeout_def Let_def split: option.splits)

lemma timer_inv_stopAutoplay: "timer_inv s \<Longrightarrow> timer_inv (stopAutoplay s) \<and> timers (stopAutoplay s) = []"
  by (auto simp: timer_inv_def split: option.splits)

lemma timer_inv_cong:
  "intervalId s' = intervalId s \<and> timers s' = timers s \<and> nextHandle s' = nextHandle s \<and>
   autoplayIcon s' = autoplayIcon s \<Longrightarrow> timer_inv s \<Longrightarrow> timer_inv s'"
  by (simp add: timer_inv_def split: option.splits)

lemma timer_inv_autoplayClickHandler: "timer_inv s \<Longrightarrow> timer_inv (autoplayClickHandler s)"
  by (auto simp: autoplayClickHandler_def timer_inv_stopAutoplay setInterval_def timer_inv_def truthy_def
      split: option.splits)

lemma setNextChapter_Inr:
  assumes "setNextChapter st s = Inr s'"
  shows "intervalId s' = intervalId s \<and> timers s' = timers s \<and>
         nextHandle s' = nextHandle s \<and> autoplayIcon s' = autoplayIcon s"
  using assms updateChapter_Inr [of st "js_add (getCurrentChapterIndex s) (Fin 1)" s s']
  by (auto simp: setNextChapter_def Let_def split: if_splits)

lemma setPreviousChapter_Inr:
  assumes "setPreviousChapter st s = Inr s'"
  shows "intervalId s' = intervalId s \<and> timers s' = timers s \<and>
         nextHandle s' = nextHandle s \<and> autoplayIcon s' = autoplayIcon s"
  using assms updateChapter_Inr [of st "js_sub (getCurrentChapterIndex s) (Fin 1)" s s']
  by (auto simp: setPreviousChapter_def Let_def split: if_splits)

lemma timer_inv_initChapterNavigation: "timer_inv (initChapterNavigation st s) = timer_inv s"
  by (simp add: initChapterNavigation_def Let_def activateNavigationElement_def timer_inv_def
      split: option.splits)

lemma timer_inv_startClick: "timer_inv s \<Longrightarrow> timer_inv (after (startClick st s))"
proof -
  assume inv: "timer_inv s"
  let ?s1 = "activateNavigationElement ''details'' s"
  have s1: "timer_inv ?s1" using inv by (simp add: timer_inv_def activateNavigationElement_def split: option.splits)
  show ?thesis
  proof (cases "updateChapter st (Fin 0) ?s1")
    case (Inl e)
    with s1 show ?thesis by (simp add: startClick_def Let_def)
  next
    case (Inr s2)
    from updateChapter_Inr [OF Inr] s1 have "timer_inv s2" by (auto intro: timer_inv_cong)
    with Inr show ?thesis by (simp add: startClick_def Let_def)
  qed
qed

lemma timer_inv_forwardClick: "timer_inv s \<Longrightarrow> timer_inv (after (forwardClick st s))"
proof -
  assume inv: "timer_inv s"
  show ?thesis
  proof (cases "setNextChapter st s")
    case (Inl e)
    with inv show ?thesis by (simp add: forwardClick_def)
  next
    case (Inr s1)
    from setNextChapter_Inr [OF Inr] inv have "timer_inv s1" by (rule timer_inv_cong)
    with Inr show ?thesis by (simp add: forwardClick_def timer_inv_stopAutoplay)
  qed
qed

lemma timer_inv_backClick: "timer_inv s \<Longrightarrow> timer_inv (after (backClick st s))"
proof -
  assume inv: "timer_inv s"
  show ?thesis
  proof (cases "setPreviousChapter st s")
    case (Inl e)
    with inv show ?thesis by (simp add: backClick_def)
  next
    case (Inr s1)
    from setPreviousChapter_Inr [OF Inr] inv have "timer_inv s1" by (rule timer_inv_cong)
    with Inr show ?thesis by (simp add: backClick_def timer_inv_stopAutoplay)
  qed
qed

lemma timer_inv_timerTick: "timer_inv s \<Longrightarrow> timer_inv (after (timerTick st s))"
proof -
  assume inv: "timer_inv s"
  show ?thesis
  proof (cases "setNextChapter st s")
    case (Inl e)
    with inv show ?thesis by (simp add: timerTick_def setNextAutoplayStep_def)
  next
    case (Inr s1)
    from setNextChapter_Inr [OF Inr] inv have "timer_inv s1" by (rule timer_inv_cong)
    with Inr show ?thesis by (simp add: timerTick_def setNextAutoplayStep_def timer_inv_stopAutoplay)
  qed
qed

lemma reachable_timer_inv: "reachable st s \<Longrightarrow> timer_inv s"
proof (induction rule: reachable.induct)
  case (on_boot s0)
  then show ?case by (simp add: timer_inv_initChapterNavigation) (simp add: timer_inv_def)
next
  case (on_autoplay s)
  then show ?case by (simp add: autoplayClick_def timer_inv_autoplayClickHandler)
next
  case (on_url s p)
  then show ?case by (simp add: setParams_def timer_inv_def split: option.splits)
qed (simp_all add: timer_inv_startClick timer_inv_forwardClick timer_inv_backClick timer_inv_timerTick)

subsection \<open>Evaluating the samples\<close>

lemmas number_defs = toNumber_def stringToNumber_def trim_def is_ws_def unsigned_decimal_def
  is_digit_def hex_val_def digits_val_def

lemma index_loaded [simp]:
  "getCurrentChapterIndex (s\<lparr>chapterParam := p\<rparr>) = toNumber p"
  by (simp add: getCurrentChapterIndex_def getParam_def)

lemma story3_count: "length (chapters story3) = 3" "chapterCount story3 = Fin 3"
  by (simp_all add: story3_def chapterCount_def)

lemma index_playing: "getCurrentChapterIndex (playing p) = toNumber p"
  by (simp add: playing_def getCurrentChapterIndex_def getParam_def)

lemma toNumber_samples:
  "toNumber None = Fin 0" "toNumber (Some ''0'') = Fin 0" "toNumber (Some ''1'') = Fin 1"
  "toNumber (Some ''2'') = Fin 2" "toNumber (Some ''7'') = Fin 7" "toNumber (Some ''-5'') = Fin (- 5)"
  "toNumber (Some ''01'') = Fin 1" "toNumber (Some ''intro'') = NaN"
  by (simp_all add: number_defs)

lemmas state_defs = loaded_def playing_def story3_def story_swapped_def story1_def

lemmas view_defs = initChapterNavigation_def updateChapterContent_def updateDetailsNavigation_def
  updateChapterIndexAndNavigation_def activateNavigationElement_def getCurrentChapterIndex_def
  getParam_def chapterCount_def Let_def

lemmas nav_defs = updateChapter_def setNextChapter_def setPreviousChapter_def resetToIntro_def
  setNextAutoplayStep_def stopAutoplay_def clearTimeout_def performFlyTo_def
  createCustomRadiusShader_def removeCustomRadiusShader_def setParams_def setSelectedMarker_def
  chapter_at_def js_sub_def HIGHLIGHT_RADIUS_def



lemma playing_fields:
  "intervalId (playing p) = Some 1" "timers (playing p) = [(1, 3000)]" "nextHandle (playing p) = 2"
  "chapterParam (playing p) = p" "autoplayIcon (playing p) = PAUSE_ICON" "timer_inv (playing p)"
  by (simp_all add: playing_def timer_inv_def TIME_PER_CHAPTER_def)

lemma intro_fields:
  "intervalId (initChapterNavigation st (loaded p)) = None"
  "timers (initChapterNavigation st (loaded p)) = []"
  "nextHandle (initChapterNavigation st (loaded p)) = 1"
  "chapterParam (initChapterNavigation st (loaded p)) = p"
  by (simp_all add: initChapterNavigation_def getParam_def Let_def activateNavigationElement_def
      loaded_def split: option.splits)

lemma playing_eq:
  "playing p = setParams p (after (autoplayClick story3 (initChapterNavigation story3 (loaded (Some ''0'')))))"
  by (simp add: state_defs view_defs setParams_def autoplayClick_def autoplayClickHandler_def
      truthy_def setInterval_def TIME_PER_CHAPTER_def toNumber_samples)

lemma reachable_loaded: "reachable st (initChapterNavigation st (loaded p))"
  by (rule reachable.on_boot) (simp_all add: loaded_def)

lemma reachable_playing: "reachable story3 (playing p)"
  unfolding playing_eq
  by (intro reachable.on_url reachable.on_autoplay reachable_loaded)

subsection \<open>The forward button after each render\<close>




subsection \<open>Looking a chapter up by its identity\<close>

lemma first_match_None_iff: "first_match P xs = None \<longleftrightarrow> (\<forall>x \<in> set xs. \<not> P x)"
  by (induction xs) auto

lemma first_match_Some: "first_match P xs = Some k \<Longrightarrow> k < length xs \<and> P (xs ! k)"
  by (induction xs arbitrary: k) (auto split: if_splits)

text \<open>
  The title-keyed implementation resolves a missing or unmatched parameter to \<open>-1\<close>,
  which is no chapter, and resolves to chapter \<open>k\<close> only a parameter that is the title
  of chapter \<open>k\<close>.
\<close>

lemma byTitle_unmatched:
  assumes "\<forall>c \<in> set (chapters st). Some (title c) \<noteq> chapterParam s"
  shows "getCurrentChapterIndex_byTitle st s = Fin (- 1)"
    and "chapter_at st (getCurrentChapterIndex_byTitle st s) = None"
proof -
  from assms have "first_match (\<lambda>c. Some (title c) = getParam s) (chapters st) = None"
    by (simp add: first_match_None_iff getParam_def)
  then show "getCurrentChapterIndex_byTitle st s = Fin (- 1)"
    by (simp add: getCurrentChapterIndex_byTitle_def findIndex_def)
  then show "chapter_at st (getCurrentChapterIndex_byTitle st s) = None"
    by (simp add: chapter_at_def)
qed

lemma byTitle_matched:
  assumes "getCurrentChapterIndex_byTitle st s = Fin (rat_of_nat k)"
  shows "k < length (chapters st) \<and> Some (title (chapters st ! k)) = chapterParam s"
proof (cases "first_match (\<lambda>c. Some (title c) = getParam s) (chapters st)")
  case None
  with assms show ?thesis
    by (simp add: getCurrentChapterIndex_byTitle_def findIndex_def)
next
  case (Some j)
  with assms have "j = k"
    by (simp add: getCurrentChapterIndex_byTitle_def findIndex_def)
  with first_match_Some [OF Some] show ?thesis by (simp add: getParam_def)
qed

text \<open>
  What \<^verbatim>\<open>getCurrentChapterIndex\<close> reads after \<^verbatim>\<open>updateChapter(k)\<close> is the id of
  chapter \<open>k\<close> as a number.
\<close>

lemma updateChapter_reads_back:
  assumes "k < length (chapters st)"
  shows "\<exists>s'. updateChapter st (Fin (rat_of_nat k)) s = Inr s' \<and>
              getCurrentChapterIndex s' = stringToNumber (chapter_id (chapters st ! k))"
proof -
  from assms have "chapter_at st (Fin (rat_of_nat k)) = Some k"
    by (simp only: chapter_at_nat if_True)
  from updateChapter_Some [OF this, of s] show ?thesis
    by (auto simp: getCurrentChapterIndex_def getParam_def toNumber_def)
qed

subsection \<open>Stepping back, and the click handlers\<close>

lemma setPreviousChapter_delegates:
  "js_ge (js_sub (getCurrentChapterIndex s) (Fin 1)) (Fin 0) \<Longrightarrow>
     setPreviousChapter st s = updateChapter st (js_sub (getCurrentChapterIndex s) (Fin 1)) s"
  "js_lt (js_sub (getCurrentChapterIndex s) (Fin 1)) (Fin 0) \<Longrightarrow>
     setPreviousChapter st s = Inr (resetToIntro st s)"
  "chapterParam s = None \<Longrightarrow> setPreviousChapter st s = Inr (resetToIntro st s)"
  "getCurrentChapterIndex s = Fin 0 \<Longrightarrow> setPreviousChapter st s = Inr (resetToIntro st s)"
proof -
  show "js_ge (js_sub (getCurrentChapterIndex s) (Fin 1)) (Fin 0) \<Longrightarrow>
     setPreviousChapter st s = updateChapter st (js_sub (getCurrentChapterIndex s) (Fin 1)) s"
    by (simp add: setPreviousChapter_def Let_def)
  show "js_lt (js_sub (getCurrentChapterIndex s) (Fin 1)) (Fin 0) \<Longrightarrow>
     setPreviousChapter st s = Inr (resetToIntro st s)"
    by (cases "js_sub (getCurrentChapterIndex s) (Fin 1)") (simp_all add: setPreviousChapter_def Let_def)
  show "getCurrentChapterIndex s = Fin 0 \<Longrightarrow> setPreviousChapter st s = Inr (resetToIntro st s)"
    by (simp add: setPreviousChapter_def Let_def)
  then show "chapterParam s = None \<Longrightarrow> setPreviousChapter st s = Inr (resetToIntro st s)"
    by (simp add: getCurrentChapterIndex_def getParam_def toNumber_def)
qed

lemma click_completed_stops:
  assumes "forwardClick st s = Completed s' \<or> backClick st s = Completed s'"
  shows "intervalId s' = None \<and> autoplayIcon s' = PLAY_ICON \<and> (timer_inv s \<longrightarrow> timers s' = [])"
proof -
  from assms obtain s1 where s1: "s' = stopAutoplay s1"
    and same: "intervalId s1 = intervalId s \<and> timers s1 = timers s \<and>
         nextHandle s1 = nextHandle s \<and> autoplayIcon s1 = autoplayIcon s"
    by (auto simp: forwardClick_def backClick_def split: sum.splits
        dest: setNextChapter_Inr setPreviousChapter_Inr)
  have "timer_inv s \<Longrightarrow> timers s' = []"
    using timer_inv_cong [OF same] timer_inv_stopAutoplay [of s1] s1 by simp
  with s1 show ?thesis by simp
qed

lemma click_uncaught_unchanged:
  "forwardClick st s = Uncaught e s' \<or> backClick st s = Uncaught e s' \<Longrightarrow> s' = s"
  by (auto simp: forwardClick_def backClick_def split: sum.splits)

section \<open>Navigation properties\<close>

text \<open>
  C1. The specification wants a missing or unmatched \<^verbatim>\<open>chapterId\<close> parameter to
  resolve to "no current chapter". On the three-chapter story, loaded without the
  parameter, the page shows the introduction and \<^verbatim>\<open>getCurrentChapterIndex\<close> is \<open>0\<close>,
  the index of the first chapter. The values \<^verbatim>\<open>01\<close> and \<^verbatim>\<open>7\<close> match no chapter id
  and read as the index of the second chapter and as the index \<open>7\<close>, which no chapter
  has. The title-keyed implementation resolves the missing parameter to \<open>-1\<close>.
\<close>

theorem missing_parameter_reads_as_first_chapter:
  "chapterParam (initChapterNavigation story3 (loaded None)) = None \<and>
   introActive (initChapterNavigation story3 (loaded None)) \<and>
   panel (initChapterNavigation story3 (loaded None)) = Some (StoryProperties, True) \<and>
   getCurrentChapterIndex (initChapterNavigation story3 (loaded None)) = Fin 0 \<and>
   chapter_at story3 (getCurrentChapterIndex (initChapterNavigation story3 (loaded None))) = Some 0 \<and>
   first_match (\<lambda>c. Some (chapter_id c) = Some ''01'') (chapters story3) = None \<and>
   chapter_at story3 (getCurrentChapterIndex (initChapterNavigation story3 (loaded (Some ''01'')))) = Some 1 \<and>
   first_match (\<lambda>c. Some (chapter_id c) = Some ''7'') (chapters story3) = None \<and>
   getCurrentChapterIndex (initChapterNavigation story3 (loaded (Some ''7''))) = Fin 7 \<and>
   getCurrentChapterIndex_byTitle story3 (initChapterNavigation story3 (loaded None)) = Fin (- 1)"
  by (simp add: view_defs state_defs toNumber_samples chapter_at_def
      getCurrentChapterIndex_byTitle_def findIndex_def)

text \<open>
  C2. The specification wants the index read after \<^verbatim>\<open>updateChapter(i)\<close> to be \<open>i\<close>.
  On the story whose first two chapters have changed places, \<^verbatim>\<open>updateChapter(0)\<close>
  persists the id \<^verbatim>\<open>1\<close> of the chapter at position \<open>0\<close>, and the index read back is
  \<open>1\<close>.
\<close>

theorem updateChapter_swapped_reads_back_the_id:
  "chapter_at story_swapped (Fin 0) = Some 0 \<and>
   (case updateChapter story_swapped (Fin 0) (initChapterNavigation story_swapped (loaded None)) of
      Inl e \<Rightarrow> None
    | Inr s' \<Rightarrow> Some (chapterParam s', getCurrentChapterIndex s')) = Some (Some ''1'', Fin 1)"
  by (simp add: nav_defs view_defs state_defs toNumber_samples)

text \<open>
  C3. When the current chapter index is the last one, \<^verbatim>\<open>story.chapters.length - 1\<close>,
  \<^verbatim>\<open>setNextChapter\<close> returns without an exception and leaves the whole state as it was,
  so the parameter and the index read from it are unchanged and nothing wraps to chapter
  \<open>0\<close>. Whenever the index plus one is below the number of chapters, it is
  \<^verbatim>\<open>updateChapter\<close> of the index plus one; from chapter \<open>i\<close> with a chapter \<open>i + 1\<close>
  that call succeeds and selects chapter \<open>i + 1\<close>.
\<close>

theorem advance_at_last_index_is_noop:
  "(getCurrentChapterIndex s = js_sub (chapterCount st) (Fin 1) \<longrightarrow> setNextChapter st s = Inr s) \<and>
   (js_lt (js_add (getCurrentChapterIndex s) (Fin 1)) (chapterCount st) \<longrightarrow>
      setNextChapter st s = updateChapter st (js_add (getCurrentChapterIndex s) (Fin 1)) s) \<and>
   (\<forall>i. getCurrentChapterIndex s = Fin (rat_of_nat i) \<and> Suc i < length (chapters st) \<longrightarrow>
      (\<exists>s'. setNextChapter st s = Inr s' \<and>
            chapterParam s' = Some (chapter_id (chapters st ! Suc i)) \<and>
            selectedMarker s' = Some (Suc i) \<and> panel s' = Some (ChapterAt (Suc i), False)))"
proof (intro conjI impI allI)
  assume "getCurrentChapterIndex s = js_sub (chapterCount st) (Fin 1)"
  then show "setNextChapter st s = Inr s"
    by (simp add: setNextChapter_def chapterCount_def Let_def)
next
  assume "js_lt (js_add (getCurrentChapterIndex s) (Fin 1)) (chapterCount st)"
  then show "setNextChapter st s = updateChapter st (js_add (getCurrentChapterIndex s) (Fin 1)) s"
    by (simp add: setNextChapter_def Let_def)
next
  fix i
  assume a: "getCurrentChapterIndex s = Fin (rat_of_nat i) \<and> Suc i < length (chapters st)"
  then have next_index: "js_add (getCurrentChapterIndex s) (Fin 1) = Fin (rat_of_nat (Suc i))"
    by simp
  from a have at: "chapter_at st (Fin (rat_of_nat (Suc i))) = Some (Suc i)"
    by (simp only: chapter_at_nat if_True)
  from a have lt: "js_lt (Fin (rat_of_nat (Suc i))) (chapterCount st)"
    by (simp add: chapterCount_def)
  from updateChapter_Some [OF at, of s] next_index lt
  show "\<exists>s'. setNextChapter st s = Inr s' \<and>
            chapterParam s' = Some (chapter_id (chapters st ! Suc i)) \<and>
            selectedMarker s' = Some (Suc i) \<and> panel s' = Some (ChapterAt (Suc i), False)"
    by (auto simp: setNextChapter_def Let_def)
qed

theorem advance_at_last_index_is_noop_witness:
  "getCurrentChapterIndex (playing (Some ''2'')) = js_sub (chapterCount story3) (Fin 1) \<and>
   setNextChapter story3 (playing (Some ''2'')) = Inr (playing (Some ''2'')) \<and>
   js_lt (js_add (getCurrentChapterIndex (playing (Some ''0''))) (Fin 1)) (chapterCount story3) \<and>
   setNextChapter story3 (playing (Some ''0'')) = updateChapter story3 (Fin 1) (playing (Some ''0'')) \<and>
   getCurrentChapterIndex (playing (Some ''0'')) = Fin (rat_of_nat 0) \<and> Suc 0 < length (chapters story3) \<and>
   (\<exists>s'. setNextChapter story3 (playing (Some ''0'')) = Inr s' \<and> chapterParam s' = Some ''1'' \<and>
         selectedMarker s' = Some (Suc 0) \<and> panel s' = Some (ChapterAt (Suc 0), False))"
proof -
  have h1: "getCurrentChapterIndex (playing (Some ''2'')) = js_sub (chapterCount story3) (Fin 1)"
    by (simp add: index_playing toNumber_samples story3_count)
  have h2: "js_lt (js_add (getCurrentChapterIndex (playing (Some ''0''))) (Fin 1)) (chapterCount story3)"
    by (simp add: index_playing toNumber_samples story3_count)
  have h3: "getCurrentChapterIndex (playing (Some ''0'')) = Fin (rat_of_nat 0) \<and> Suc 0 < length (chapters story3)"
    by (simp add: index_playing toNumber_samples story3_count)
  have id1: "chapter_id (chapters story3 ! Suc 0) = ''1''" by (simp add: story3_def)
  note a = advance_at_last_index_is_noop [of "playing (Some ''2'')" story3, THEN conjunct1, rule_format, OF h1]
  note b = advance_at_last_index_is_noop [of "playing (Some ''0'')" story3, THEN conjunct2, THEN conjunct1, rule_format, OF h2]
  note c = advance_at_last_index_is_noop [of "playing (Some ''0'')" story3, THEN conjunct2, THEN conjunct2, rule_format, OF h3]
  have b': "setNextChapter story3 (playing (Some ''0'')) = updateChapter story3 (Fin 1) (playing (Some ''0''))"
    using b by (simp add: index_playing toNumber_samples)
  have c': "\<exists>s'. setNextChapter story3 (playing (Some ''0'')) = Inr s' \<and> chapterParam s' = Some ''1'' \<and>
         selectedMarker s' = Some (Suc 0) \<and> panel s' = Some (ChapterAt (Suc 0), False)"
    using c by (simp only: id1)
  from h1 a h2 b' h3 c' show ?thesis by blast
qed

text \<open>
  C4. The specification wants \<^verbatim>\<open>setPreviousChapter\<close> at index \<open>0\<close> to end in the
  introduction with the current index resolving to "none". On the three-chapter story
  opened at its first chapter, \<^verbatim>\<open>setPreviousChapter\<close> is \<^verbatim>\<open>resetToIntro\<close>, which clears
  the parameter and shows the introduction, and the index read afterwards is \<open>0\<close>, the
  index of the first chapter.
\<close>

theorem retreat_from_first_chapter_reads_index_0:
  "getCurrentChapterIndex (initChapterNavigation story3 (loaded (Some ''0''))) = Fin 0 \<and>
   detailsActive (initChapterNavigation story3 (loaded (Some ''0''))) \<and>
   setPreviousChapter story3 (initChapterNavigation story3 (loaded (Some ''0''))) =
     Inr (resetToIntro story3 (initChapterNavigation story3 (loaded (Some ''0'')))) \<and>
   chapterParam (resetToIntro story3 (initChapterNavigation story3 (loaded (Some ''0'')))) = None \<and>
   introActive (resetToIntro story3 (initChapterNavigation story3 (loaded (Some ''0'')))) \<and>
   getCurrentChapterIndex (resetToIntro story3 (initChapterNavigation story3 (loaded (Some ''0'')))) = Fin 0 \<and>
   chapter_at story3 (getCurrentChapterIndex
     (resetToIntro story3 (initChapterNavigation story3 (loaded (Some ''0''))))) = Some 0"
  by (simp add: nav_defs view_defs state_defs toNumber_samples)



text \<open>
  C6. The specification wants every click on the forward or the back button to stop
  autoplay. On the three-chapter story with autoplay running, a click on the back button
  while the parameter is \<^verbatim>\<open>7\<close>, which matches no chapter, calls \<^verbatim>\<open>updateChapter(6)\<close>;
  the \<^verbatim>\<open>TypeError\<close> ends the handler before \<^verbatim>\<open>stopAutoplay\<close>, and the timer stays
  live with its handle. A click on the forward button while the parameter is \<^verbatim>\<open>-5\<close>
  ends the same way.
\<close>

theorem click_that_throws_leaves_autoplay_running:
  "reachable story3 (playing (Some ''7'')) \<and>
   first_match (\<lambda>c. Some (chapter_id c) = Some ''7'') (chapters story3) = None \<and>
   backClick story3 (playing (Some ''7'')) = Uncaught TypeError (playing (Some ''7'')) \<and>
   intervalId (after (backClick story3 (playing (Some ''7'')))) = Some 1 \<and>
   timers (after (backClick story3 (playing (Some ''7'')))) = [(1, 3000)] \<and>
   autoplayIcon (after (backClick story3 (playing (Some ''7'')))) = PAUSE_ICON \<and>
   reachable story3 (playing (Some ''-5'')) \<and>
   forwardClick story3 (playing (Some ''-5'')) = Uncaught TypeError (playing (Some ''-5''))"
proof -
  have "backClick story3 (playing (Some ''7'')) = Uncaught TypeError (playing (Some ''7''))"
    by (simp add: backClick_def nav_defs view_defs state_defs toNumber_samples)
  moreover have "forwardClick story3 (playing (Some ''-5'')) = Uncaught TypeError (playing (Some ''-5''))"
    by (simp add: forwardClick_def nav_defs view_defs state_defs toNumber_samples)
  moreover have "first_match (\<lambda>c. Some (chapter_id c) = Some ''7'') (chapters story3) = None"
    by (simp add: story3_def)
  ultimately show ?thesis
    by (simp add: reachable_playing playing_fields)
qed

text \<open>
  C7. In every reachable state the handle and the live timers are in step and at most one
  timer is live. There, \<^verbatim>\<open>autoplayClickHandler\<close> with a handle set is \<^verbatim>\<open>stopAutoplay\<close>
  and leaves no timer, and with the handle \<^verbatim>\<open>null\<close> it leaves exactly one timer, of
  period 3000, under the new handle, with the pause icon. In any state \<^verbatim>\<open>stopAutoplay\<close>
  sets the handle to \<^verbatim>\<open>null\<close>, restores the play icon and removes the timer the handle
  named; with no handle it changes nothing but the icon, and a second call changes
  nothing.
\<close>

theorem autoplay_has_one_timer:
  "(reachable st s \<longrightarrow>
      timer_inv s \<and> length (timers s) \<le> 1 \<and>
      (intervalId s \<noteq> None \<longrightarrow>
         autoplayClickHandler s = stopAutoplay s \<and> timers (autoplayClickHandler s) = []) \<and>
      (intervalId s = None \<longrightarrow>
         timers (autoplayClickHandler s) = [(nextHandle s, 3000)] \<and>
         intervalId (autoplayClickHandler s) = Some (nextHandle s) \<and>
         autoplayIcon (autoplayClickHandler s) = PAUSE_ICON)) \<and>
   (truthy (intervalId s) \<longrightarrow> autoplayClickHandler s = stopAutoplay s) \<and>
   intervalId (stopAutoplay s) = None \<and>
   autoplayIcon (stopAutoplay s) = PLAY_ICON \<and>
   (\<forall>h. intervalId s = Some h \<longrightarrow> h \<notin> fst ` set (timers (stopAutoplay s))) \<and>
   (intervalId s = None \<longrightarrow> stopAutoplay s = s\<lparr>autoplayIcon := PLAY_ICON\<rparr>) \<and>
   stopAutoplay (stopAutoplay s) = stopAutoplay s"
proof (intro conjI impI allI)
  assume r: "reachable st s"
  then show inv: "timer_inv s" by (rule reachable_timer_inv)
  then show "length (timers s) \<le> 1"
    by (auto simp: timer_inv_def split: option.splits)
  {
    assume "intervalId s \<noteq> None"
    with inv have "truthy (intervalId s)"
      by (auto simp: timer_inv_def truthy_def split: option.splits)
    then show stop: "autoplayClickHandler s = stopAutoplay s"
      by (simp add: autoplayClickHandler_def)
    from inv show "timers (autoplayClickHandler s) = []"
      by (simp only: stop timer_inv_stopAutoplay)
  }
  {
    assume none: "intervalId s = None"
    with inv have t: "timers s = []" by (simp add: timer_inv_def)
    from none t show "timers (autoplayClickHandler s) = [(nextHandle s, 3000)]"
      by (simp add: autoplayClickHandler_def truthy_def setInterval_def TIME_PER_CHAPTER_def)
    from none show "intervalId (autoplayClickHandler s) = Some (nextHandle s)"
      by (simp add: autoplayClickHandler_def truthy_def setInterval_def)
    from none show "autoplayIcon (autoplayClickHandler s) = PAUSE_ICON"
      by (simp add: autoplayClickHandler_def truthy_def setInterval_def)
  }
next
  assume "truthy (intervalId s)"
  then show "autoplayClickHandler s = stopAutoplay s"
    by (simp add: autoplayClickHandler_def)
next
  show "intervalId (stopAutoplay s) = None" and "autoplayIcon (stopAutoplay s) = PLAY_ICON"
    by simp_all
  show "stopAutoplay (stopAutoplay s) = stopAutoplay s"
    by (simp add: stopAutoplay_def clearTimeout_def Let_def split: option.splits)
next
  fix h
  assume "intervalId s = Some h"
  then show "h \<notin> fst ` set (timers (stopAutoplay s))" by auto
next
  assume "intervalId s = None"
  then show "stopAutoplay s = s\<lparr>autoplayIcon := PLAY_ICON\<rparr>"
    by (simp add: stopAutoplay_def clearTimeout_def Let_def)
qed

theorem autoplay_has_one_timer_witness:
  "reachable story3 (playing (Some ''0'')) \<and>
   timer_inv (playing (Some ''0'')) \<and> length (timers (playing (Some ''0''))) \<le> 1 \<and>
   intervalId (playing (Some ''0'')) \<noteq> None \<and> truthy (intervalId (playing (Some ''0''))) \<and>
   autoplayClickHandler (playing (Some ''0'')) = stopAutoplay (playing (Some ''0'')) \<and>
   timers (autoplayClickHandler (playing (Some ''0''))) = [] \<and>
   intervalId (playing (Some ''0'')) = Some 1 \<and>
   1 \<notin> fst ` set (timers (stopAutoplay (playing (Some ''0'')))) \<and>
   reachable story3 (initChapterNavigation story3 (loaded None)) \<and>
   intervalId (initChapterNavigation story3 (loaded None)) = None \<and>
   timers (autoplayClickHandler (initChapterNavigation story3 (loaded None))) = [(1, 3000)] \<and>
   intervalId (autoplayClickHandler (initChapterNavigation story3 (loaded None))) = Some 1 \<and>
   autoplayIcon (autoplayClickHandler (initChapterNavigation story3 (loaded None))) = PAUSE_ICON \<and>
   stopAutoplay (initChapterNavigation story3 (loaded None)) =
     (initChapterNavigation story3 (loaded None))\<lparr>autoplayIcon := PLAY_ICON\<rparr>"
proof -
  have r1: "reachable story3 (playing (Some ''0''))" by (rule reachable_playing)
  have r2: "reachable story3 (initChapterNavigation story3 (loaded None))" by (rule reachable_loaded)
  have set1: "intervalId (playing (Some ''0'')) \<noteq> None" "truthy (intervalId (playing (Some ''0'')))"
    "intervalId (playing (Some ''0'')) = Some 1"
    by (simp_all add: playing_fields truthy_def)
  have none2: "intervalId (initChapterNavigation story3 (loaded None)) = None"
    by (simp add: intro_fields)
  note a = autoplay_has_one_timer [of story3 "playing (Some ''0'')", THEN conjunct1, rule_format, OF r1]
  note b = autoplay_has_one_timer [of story3 "initChapterNavigation story3 (loaded None)", THEN conjunct1, rule_format, OF r2]
  note c = autoplay_has_one_timer [of story3 "playing (Some ''0'')", THEN conjunct2]
  note d = autoplay_has_one_timer [of story3 "initChapterNavigation story3 (loaded None)", THEN conjunct2]
  from a set1 have a': "timer_inv (playing (Some ''0''))" "length (timers (playing (Some ''0''))) \<le> 1"
    "autoplayClickHandler (playing (Some ''0'')) = stopAutoplay (playing (Some ''0''))"
    "timers (autoplayClickHandler (playing (Some ''0''))) = []"
    by blast+
  from b none2 have b': 
    "timers (autoplayClickHandler (initChapterNavigation story3 (loaded None))) = [(1, 3000)]"
    "intervalId (autoplayClickHandler (initChapterNavigation story3 (loaded None))) = Some 1"
    "autoplayIcon (autoplayClickHandler (initChapterNavigation story3 (loaded None))) = PAUSE_ICON"
    by (simp_all only: intro_fields)
  from c set1 have c': "1 \<notin> fst ` set (timers (stopAutoplay (playing (Some ''0''))))"
    by blast
  from d none2 have d': "stopAutoplay (initChapterNavigation story3 (loaded None)) =
     (initChapterNavigation story3 (loaded None))\<lparr>autoplayIcon := PLAY_ICON\<rparr>"
    by blast
  from r1 r2 set1 none2 a' b' c' d' show ?thesis by blast
qed



text \<open>
  C9. With no \<^verbatim>\<open>chapterId\<close> parameter \<^verbatim>\<open>getCurrentChapterIndex\<close> is \<open>0\<close>, the same as
  with the parameter \<^verbatim>\<open>0\<close>. From there \<^verbatim>\<open>setNextChapter\<close> is \<^verbatim>\<open>updateChapter(1)\<close> and
  selects the chapter at index \<open>1\<close> when the story has one; with at most one chapter it
  does nothing.
\<close>

theorem intro_reads_as_index_0:
  "chapterParam s = None \<longrightarrow>
     getCurrentChapterIndex s = Fin 0 \<and>
     getCurrentChapterIndex s = getCurrentChapterIndex (s\<lparr>chapterParam := Some ''0''\<rparr>) \<and>
     (1 < length (chapters st) \<longrightarrow>
        setNextChapter st s = updateChapter st (Fin 1) s \<and>
        (\<exists>s'. setNextChapter st s = Inr s' \<and>
              chapterParam s' = Some (chapter_id (chapters st ! 1)) \<and>
              selectedMarker s' = Some 1 \<and> panel s' = Some (ChapterAt 1, False))) \<and>
     (length (chapters st) \<le> 1 \<longrightarrow> setNextChapter st s = Inr s)"
proof (intro impI conjI)
  assume none: "chapterParam s = None"
  then show idx: "getCurrentChapterIndex s = Fin 0"
    by (simp add: getCurrentChapterIndex_def getParam_def toNumber_def)
  show "getCurrentChapterIndex s = getCurrentChapterIndex (s\<lparr>chapterParam := Some ''0''\<rparr>)"
    by (simp add: idx toNumber_samples)
  {
    assume two: "1 < length (chapters st)"
    then show eq: "setNextChapter st s = updateChapter st (Fin 1) s"
      by (simp add: setNextChapter_def Let_def idx chapterCount_def)
    from two have "chapter_at st (Fin (rat_of_nat 1)) = Some 1"
      by (simp only: chapter_at_nat if_True)
    then have "chapter_at st (Fin 1) = Some 1" by simp
    from updateChapter_Some [OF this, of s] eq
    show "\<exists>s'. setNextChapter st s = Inr s' \<and>
              chapterParam s' = Some (chapter_id (chapters st ! 1)) \<and>
              selectedMarker s' = Some 1 \<and> panel s' = Some (ChapterAt 1, False)"
      by auto
  }
  assume "length (chapters st) \<le> 1"
  then show "setNextChapter st s = Inr s"
    by (simp add: setNextChapter_def Let_def idx chapterCount_def)
qed

theorem intro_reads_as_index_0_witness:
  "chapterParam (initChapterNavigation story3 (loaded None)) = None \<and>
   getCurrentChapterIndex (initChapterNavigation story3 (loaded None)) = Fin 0 \<and>
   1 < length (chapters story3) \<and>
   setNextChapter story3 (initChapterNavigation story3 (loaded None)) =
     updateChapter story3 (Fin 1) (initChapterNavigation story3 (loaded None)) \<and>
   (\<exists>s'. setNextChapter story3 (initChapterNavigation story3 (loaded None)) = Inr s' \<and>
         chapterParam s' = Some ''1'' \<and> selectedMarker s' = Some 1 \<and>
         panel s' = Some (ChapterAt 1, False)) \<and>
   chapterParam (initChapterNavigation story1 (loaded None)) = None \<and>
   length (chapters story1) \<le> 1 \<and>
   setNextChapter story1 (initChapterNavigation story1 (loaded None)) =
     Inr (initChapterNavigation story1 (loaded None))"
proof -
  have h: "chapterParam (initChapterNavigation story3 (loaded None)) = None"
    by (simp add: intro_fields)
  have two: "1 < length (chapters story3)" by (simp add: story3_count)
  have id1: "chapter_id (chapters story3 ! 1) = ''1''" by (simp add: story3_def)
  note a = intro_reads_as_index_0 [of "initChapterNavigation story3 (loaded None)" story3, rule_format, OF h]
  note b = a [THEN conjunct2, THEN conjunct2, THEN conjunct1, rule_format, OF two]
  from a have a1: "getCurrentChapterIndex (initChapterNavigation story3 (loaded None)) = Fin 0" by blast
  from b [THEN conjunct2] have b2: "\<exists>s'. setNextChapter story3 (initChapterNavigation story3 (loaded None)) = Inr s' \<and>
         chapterParam s' = Some ''1'' \<and> selectedMarker s' = Some 1 \<and>
         panel s' = Some (ChapterAt 1, False)"
    by (simp only: id1)
  have h1: "chapterParam (initChapterNavigation story1 (loaded None)) = None"
    by (simp add: intro_fields)
  have one: "length (chapters story1) \<le> 1" by (simp add: story1_def)
  note c = intro_reads_as_index_0 [of "initChapterNavigation story1 (loaded None)" story1, rule_format, OF h1,
      THEN conjunct2, THEN conjunct2, THEN conjunct2, rule_format, OF one]
  from h a1 two b b2 h1 one c show ?thesis by blast
qed

text \<open>
  C10. When the \<^verbatim>\<open>chapterId\<close> parameter is a string that \<^verbatim>\<open>Number\<close> turns into
  \<^verbatim>\<open>NaN\<close>, \<^verbatim>\<open>getCurrentChapterIndex\<close> is \<^verbatim>\<open>NaN\<close>, \<^verbatim>\<open>setNextChapter\<close> returns with
  the state unchanged and \<^verbatim>\<open>setPreviousChapter\<close> returns the state of
  \<^verbatim>\<open>resetToIntro\<close>; neither throws.
\<close>

theorem non_numeric_parameter_reads_as_NaN:
  "chapterParam s = Some p \<and> stringToNumber p = NaN \<longrightarrow>
     getCurrentChapterIndex s = NaN \<and>
     setNextChapter st s = Inr s \<and>
     setPreviousChapter st s = Inr (resetToIntro st s)"
  by (simp add: getCurrentChapterIndex_def getParam_def toNumber_def setNextChapter_def
      setPreviousChapter_def js_sub_def Let_def)

theorem non_numeric_parameter_reads_as_NaN_witness:
  "chapterParam (playing (Some ''intro'')) = Some ''intro'' \<and> stringToNumber ''intro'' = NaN \<and>
   getCurrentChapterIndex (playing (Some ''intro'')) = NaN \<and>
   setNextChapter story3 (playing (Some ''intro'')) = Inr (playing (Some ''intro'')) \<and>
   setPreviousChapter story3 (playing (Some ''intro'')) = Inr (resetToIntro story3 (playing (Some ''intro''))) \<and>
   chapterParam (resetToIntro story3 (playing (Some ''intro''))) = None"
proof -
  have h: "chapterParam (playing (Some ''intro'')) = Some ''intro'' \<and> stringToNumber ''intro'' = NaN"
    using toNumber_samples(8) by (simp add: playing_fields toNumber_def)
  from non_numeric_parameter_reads_as_NaN [of "playing (Some ''intro'')" "''intro''" story3, rule_format, OF h] h
  show ?thesis by simp
qed

end
